theory Spec2Isabelle
  imports Main
begin

section \<open>Values exchanged with the handlers\<close>

text \<open>
  The REST handlers of \<^verbatim>\<open>account_limit.py\<close> (\<^verbatim>\<open>LocalAccountLimit\<close>,
  \<^verbatim>\<open>GlobalAccountLimit\<close>) and of \<^verbatim>\<open>dirac.py\<close> (\<^verbatim>\<open>AddFiles\<close>) decode a JSON
  body, read one field, call one function of \<^verbatim>\<open>rucio.api\<close> and translate what that call
  raises into an HTTP response. The decoders and the \<^verbatim>\<open>rucio.api\<close> functions are
  collaborators of the handlers: each handler of the model takes them as arguments.
\<close>

text \<open>
  What a JSON decoder returns in Python. An object is a \<^verbatim>\<open>dict\<close>, kept here by its
  items (looked up with \<^const>\<open>map_of\<close>); a float is kept by its literal.
\<close>

datatype json =
    JNull
  | JBool bool
  | JInt int
  | JFloat string
  | JString string
  | JArray "json list"
  | JObject "(string \<times> json) list"

text \<open>
  The exception classes the \<^verbatim>\<open>except\<close> clauses tell apart. The classes imported from
  \<^verbatim>\<open>rucio.common.exception\<close> all derive directly from \<^verbatim>\<open>RucioException\<close>, which
  derives from \<^verbatim>\<open>Exception\<close>; \<open>OtherRucioException n\<close> is any further subclass of
  \<^verbatim>\<open>RucioException\<close>, named \<open>n\<close>. A subclass of a builtin class that a clause names
  (\<^verbatim>\<open>JSONDecodeError\<close> and \<^verbatim>\<open>UnicodeDecodeError\<close> under \<^verbatim>\<open>ValueError\<close>) is recorded as
  that class; \<open>OtherException n\<close> is any other class deriving from \<^verbatim>\<open>Exception\<close>.
\<close>

datatype exc_class =
    ValueError
  | KeyError
  | TypeError
  | OtherException string
  | InvalidType
  | InvalidPath
  | AccessDenied
  | RSENotFound
  | AccountNotFound
  | UnsupportedOperation
  | Duplicate
  | DataIdentifierAlreadyExists
  | DatabaseException
  | ResourceTemporaryUnavailable
  | OtherRucioException string

text \<open>\<^verbatim>\<open>error.__class__.__name__\<close>\<close>

fun class_name :: "exc_class \<Rightarrow> string" where
  "class_name ValueError = ''ValueError''"
| "class_name KeyError = ''KeyError''"
| "class_name TypeError = ''TypeError''"
| "class_name (OtherException n) = n"
| "class_name InvalidType = ''InvalidType''"
| "class_name InvalidPath = ''InvalidPath''"
| "class_name AccessDenied = ''AccessDenied''"
| "class_name RSENotFound = ''RSENotFound''"
| "class_name AccountNotFound = ''AccountNotFound''"
| "class_name UnsupportedOperation = ''UnsupportedOperation''"
| "class_name Duplicate = ''Duplicate''"
| "class_name DataIdentifierAlreadyExists = ''DataIdentifierAlreadyExists''"
| "class_name DatabaseException = ''DatabaseException''"
| "class_name ResourceTemporaryUnavailable = ''ResourceTemporaryUnavailable''"
| "class_name (OtherRucioException n) = n"

text \<open>\<^verbatim>\<open>isinstance(error, RucioException)\<close>\<close>

fun is_RucioException :: "exc_class \<Rightarrow> bool" where
  "is_RucioException ValueError = False"
| "is_RucioException KeyError = False"
| "is_RucioException TypeError = False"
| "is_RucioException (OtherException n) = False"
| "is_RucioException c = True"

text \<open>
  Modelled from the spec: the declarations of \<^verbatim>\<open>rucio.common.exception\<close> are not part
  of the sources. The specification's data model gives a failure of a downstream
  operation as \<^verbatim>\<open>Failure{kind, message}\<close>; a raised exception is therefore its class,
  its message \<^verbatim>\<open>error.args[0]\<close>, and the text \<^verbatim>\<open>str(error)\<close> that the catch-all
  clauses send. Every raised error carries a message: an error raised with no argument
  at all, on which \<^verbatim>\<open>error.args[0]\<close> would itself raise, is outside this model.
\<close>

record py_exception =
  cls :: exc_class
  args0 :: string
  as_str :: string

text \<open>
  \<^verbatim>\<open>repr\<close> of a key: for the keys the handlers use (ASCII letters) it is the key
  between single quotes, and it is \<^verbatim>\<open>str\<close> of the \<^verbatim>\<open>KeyError\<close> of that key.
\<close>

definition repr_key :: "string \<Rightarrow> string" where
  "repr_key k = [CHR 0x27] @ k @ [CHR 0x27]"

definition key_error :: "string \<Rightarrow> py_exception" where
  "key_error k = \<lparr>cls = KeyError, args0 = k, as_str = repr_key k\<rparr>"

definition type_error :: "string \<Rightarrow> py_exception" where
  "type_error m = \<lparr>cls = TypeError, args0 = m, as_str = m\<rparr>"

definition attribute_error :: "string \<Rightarrow> py_exception" where
  "attribute_error m = \<lparr>cls = OtherException ''AttributeError'', args0 = m, as_str = m\<rparr>"

text \<open>The name Python prints for the type of a decoded value.\<close>

fun type_name :: "json \<Rightarrow> string" where
  "type_name JNull = ''NoneType''"
| "type_name (JBool b) = ''bool''"
| "type_name (JInt i) = ''int''"
| "type_name (JFloat f) = ''float''"
| "type_name (JString s) = ''str''"
| "type_name (JArray xs) = ''list''"
| "type_name (JObject kv) = ''dict''"

text \<open>
  \<^verbatim>\<open>parameter[key]\<close> with a string key: a dict returns the value or raises
  \<^verbatim>\<open>KeyError(key)\<close>; every other decoded value raises \<^verbatim>\<open>TypeError\<close> (with CPython's
  message).
\<close>

fun getitem :: "json \<Rightarrow> string \<Rightarrow> py_exception + json" where
  "getitem (JObject kv) key =
     (case map_of kv key of Some v \<Rightarrow> Inr v | None \<Rightarrow> Inl (key_error key))"
| "getitem (JArray xs) key =
     Inl (type_error ''list indices must be integers or slices, not str'')"
| "getitem (JString s) key = Inl (type_error ''string indices must be integers'')"
| "getitem v key =
     Inl (type_error (repr_key (type_name v) @ '' object is not subscriptable''))"

text \<open>
  \<^verbatim>\<open>parameters.get(key, default)\<close>: only a dict has the method; on any other decoded
  value the attribute lookup raises \<^verbatim>\<open>AttributeError\<close>.
\<close>

fun dict_get :: "json \<Rightarrow> string \<Rightarrow> json \<Rightarrow> py_exception + json" where
  "dict_get (JObject kv) key dflt =
     (case map_of kv key of Some v \<Rightarrow> Inr v | None \<Rightarrow> Inr dflt)"
| "dict_get v key dflt =
     Inl (attribute_error (repr_key (type_name v) @ '' object has no attribute ''
            @ repr_key ''get''))"

subsection \<open>Requests and responses\<close>

text \<open>
  Flask's \<^verbatim>\<open>request\<close>: the raw body \<^verbatim>\<open>request.data\<close> and the WSGI environment, in
  which the authentication middleware leaves \<^verbatim>\<open>issuer\<close> and \<^verbatim>\<open>vo\<close>.
\<close>

record request =
  request_data :: string
  environ :: "(string \<times> string) list"

text \<open>\<^verbatim>\<open>request.environ.get(key)\<close>, \<open>None\<close> for an absent key.\<close>

definition environ_get :: "request \<Rightarrow> string \<Rightarrow> string option" where
  "environ_get req key = map_of (environ req) key"

text \<open>
  A response is a body and a status, in the order of the tuples the handlers return
  (\<^verbatim>\<open>'Created', 201\<close>). The body is plain text or the error object built by
  \<^verbatim>\<open>generate_http_error_flask\<close>.
\<close>

datatype response_body =
    Text string
  | ErrorObject (ExceptionClass: string) (ExceptionMessage: string)

datatype response = Response (body: response_body) (status: nat)

text \<open>
  Modelled from the spec: \<^verbatim>\<open>generate_http_error_flask\<close> of \<^verbatim>\<open>rucio.web.rest.utils\<close> is
  not part of the sources. The specification fixes its contract: the response has the
  given status and the body
  \<^verbatim>\<open>{ "ExceptionClass": <kind>, "ExceptionMessage": <message> }\<close>.
\<close>

definition generate_http_error_flask :: "nat \<Rightarrow> string \<Rightarrow> string \<Rightarrow> response" where
  "generate_http_error_flask status_code exc_cls exc_msg =
     Response (ErrorObject exc_cls exc_msg) status_code"

subsection \<open>The downstream operations\<close>

text \<open>
  One constructor for each function of \<^verbatim>\<open>rucio.api\<close> a handler calls, with the keyword
  arguments of the call. A call returns or raises; the functions themselves are a
  parameter \<open>api\<close> of every handler.
\<close>

datatype api_call =
    Set_local_account_limit string string json "string option" "string option"
  | Delete_local_account_limit string string "string option" "string option"
  | Set_global_account_limit string string json "string option" "string option"
  | Delete_global_account_limit string string "string option" "string option"
  | Add_files json "string option" json

datatype outcome = Returns | Raises py_exception

text \<open>
  What a handler does: the downstream calls it made, in order, and either the response
  it returned (\<open>Inr\<close>) or the exception that left the handler (\<open>Inl\<close>). The stack trace
  that the catch-all clauses print is not part of the result.
\<close>

type_synonym handler_result = "api_call list \<times> (py_exception + response)"

definition calls :: "handler_result \<Rightarrow> api_call list" where
  "calls r = fst r"

definition returned :: "handler_result \<Rightarrow> py_exception + response" where
  "returned r = snd r"

text \<open>The status of the response, \<open>None\<close> when an exception left the handler.\<close>

definition response_status :: "handler_result \<Rightarrow> nat option" where
  "response_status r = (case snd r of Inl error \<Rightarrow> None | Inr resp \<Rightarrow> Some (status resp))"

section \<open>The handlers of account_limit.py\<close>

text \<open>The \<^verbatim>\<open>except\<close> clauses around \<^verbatim>\<open>set_local_account_limit\<close> and \<^verbatim>\<open>set_global_account_limit\<close>.\<close>

definition set_limit_except :: "py_exception \<Rightarrow> response" where
  "set_limit_except error =
     (if cls error = AccessDenied then
        generate_http_error_flask 401 ''AccessDenied'' (args0 error)
      else if cls error = RSENotFound then
        generate_http_error_flask 404 ''RSENotFound'' (args0 error)
      else if cls error = AccountNotFound then
        generate_http_error_flask 404 ''AccountNotFound'' (args0 error)
      else Response (Text (as_str error)) 500)"

text \<open>The \<^verbatim>\<open>except\<close> clauses around \<^verbatim>\<open>delete_local_account_limit\<close> and \<^verbatim>\<open>delete_global_account_limit\<close>.\<close>

definition delete_limit_except :: "py_exception \<Rightarrow> response" where
  "delete_limit_except error =
     (if cls error = AccessDenied then
        generate_http_error_flask 401 ''AccessDenied'' (args0 error)
      else if cls error = AccountNotFound then
        generate_http_error_flask 404 ''AccountNotFound'' (args0 error)
      else if cls error = RSENotFound then
        generate_http_error_flask 404 ''RSENotFound'' (args0 error)
      else Response (Text (as_str error)) 500)"

text \<open>The calls, with the caller's identity read from the request.\<close>

definition set_local_call :: "request \<Rightarrow> string \<Rightarrow> string \<Rightarrow> json \<Rightarrow> api_call" where
  "set_local_call req account rse bytes =
     Set_local_account_limit account rse bytes (environ_get req ''issuer'') (environ_get req ''vo'')"

definition delete_local_call :: "request \<Rightarrow> string \<Rightarrow> string \<Rightarrow> api_call" where
  "delete_local_call req account rse =
     Delete_local_account_limit account rse (environ_get req ''issuer'') (environ_get req ''vo'')"

definition set_global_call :: "request \<Rightarrow> string \<Rightarrow> string \<Rightarrow> json \<Rightarrow> api_call" where
  "set_global_call req account rse_expression bytes =
     Set_global_account_limit account rse_expression bytes
       (environ_get req ''issuer'') (environ_get req ''vo'')"

definition delete_global_call :: "request \<Rightarrow> string \<Rightarrow> string \<Rightarrow> api_call" where
  "delete_global_call req account rse_expression =
     Delete_global_account_limit account rse_expression
       (environ_get req ''issuer'') (environ_get req ''vo'')"

text \<open>
  \<^verbatim>\<open>LocalAccountLimit.post\<close>. \<open>loads\<close> is \<^verbatim>\<open>json.loads\<close>. The first \<^verbatim>\<open>try\<close> catches
  \<^verbatim>\<open>ValueError\<close> only. The second catches \<^verbatim>\<open>KeyError\<close>, answers it when
  \<^verbatim>\<open>error.args[0] == 'type'\<close> and re-raises it otherwise, and catches \<^verbatim>\<open>TypeError\<close>.
\<close>

definition LocalAccountLimit_post ::
  "(string \<Rightarrow> py_exception + json) \<Rightarrow> (api_call \<Rightarrow> outcome) \<Rightarrow> request \<Rightarrow> string \<Rightarrow> string
     \<Rightarrow> handler_result" where
  "LocalAccountLimit_post loads api req account rse =
     (case loads (request_data req) of
        Inl error \<Rightarrow>
          (if cls error = ValueError then
             ([], Inr (generate_http_error_flask 400 ''ValueError''
                         ''cannot decode json parameter dictionary''))
           else ([], Inl error))
      | Inr parameter \<Rightarrow>
          (case getitem parameter ''bytes'' of
             Inl error \<Rightarrow>
               (if cls error = KeyError then
                  (if args0 error = ''type'' then
                     ([], Inr (generate_http_error_flask 400 ''KeyError''
                                 (as_str error @ '' not defined'')))
                   else ([], Inl error))
                else if cls error = TypeError then
                  ([], Inr (generate_http_error_flask 400 ''TypeError''
                              ''body must be a json dictionary''))
                else ([], Inl error))
           | Inr bytes \<Rightarrow>
               (case api (set_local_call req account rse bytes) of
                  Raises error \<Rightarrow>
                    ([set_local_call req account rse bytes], Inr (set_limit_except error))
                | Returns \<Rightarrow>
                    ([set_local_call req account rse bytes],
                     Inr (Response (Text ''Created'') 201)))))"

text \<open>\<^verbatim>\<open>LocalAccountLimit.delete\<close>\<close>

definition LocalAccountLimit_delete ::
  "(api_call \<Rightarrow> outcome) \<Rightarrow> request \<Rightarrow> string \<Rightarrow> string \<Rightarrow> handler_result" where
  "LocalAccountLimit_delete api req account rse =
     (case api (delete_local_call req account rse) of
        Raises error \<Rightarrow> ([delete_local_call req account rse], Inr (delete_limit_except error))
      | Returns \<Rightarrow> ([delete_local_call req account rse], Inr (Response (Text '''') 200)))"

text \<open>\<^verbatim>\<open>GlobalAccountLimit.post\<close>\<close>

definition GlobalAccountLimit_post ::
  "(string \<Rightarrow> py_exception + json) \<Rightarrow> (api_call \<Rightarrow> outcome) \<Rightarrow> request \<Rightarrow> string \<Rightarrow> string
     \<Rightarrow> handler_result" where
  "GlobalAccountLimit_post loads api req account rse_expression =
     (case loads (request_data req) of
        Inl error \<Rightarrow>
          (if cls error = ValueError then
             ([], Inr (generate_http_error_flask 400 ''ValueError''
                         ''cannot decode json parameter dictionary''))
           else ([], Inl error))
      | Inr parameter \<Rightarrow>
          (case getitem parameter ''bytes'' of
             Inl error \<Rightarrow>
               (if cls error = KeyError then
                  (if args0 error = ''type'' then
                     ([], Inr (generate_http_error_flask 400 ''KeyError''
                                 (as_str error @ '' not defined'')))
                   else ([], Inl error))
                else if cls error = TypeError then
                  ([], Inr (generate_http_error_flask 400 ''TypeError''
                              ''body must be a json dictionary''))
                else ([], Inl error))
           | Inr bytes \<Rightarrow>
               (case api (set_global_call req account rse_expression bytes) of
                  Raises error \<Rightarrow>
                    ([set_global_call req account rse_expression bytes],
                     Inr (set_limit_except error))
                | Returns \<Rightarrow>
                    ([set_global_call req account rse_expression bytes],
                     Inr (Response (Text ''Created'') 201)))))"

text \<open>\<^verbatim>\<open>GlobalAccountLimit.delete\<close>\<close>

definition GlobalAccountLimit_delete ::
  "(api_call \<Rightarrow> outcome) \<Rightarrow> request \<Rightarrow> string \<Rightarrow> string \<Rightarrow> handler_result" where
  "GlobalAccountLimit_delete api req account rse_expression =
     (case api (delete_global_call req account rse_expression) of
        Raises error \<Rightarrow>
          ([delete_global_call req account rse_expression], Inr (delete_limit_except error))
      | Returns \<Rightarrow>
          ([delete_global_call req account rse_expression], Inr (Response (Text '''') 200)))"

section \<open>The handler of dirac.py\<close>

text \<open>
  The \<^verbatim>\<open>except\<close> clauses of the second \<^verbatim>\<open>try\<close> of \<^verbatim>\<open>AddFiles.post\<close>, in the order of
  the source; the clause for \<^verbatim>\<open>RucioException\<close> sends the name of the error's class,
  the last one sends \<^verbatim>\<open>str(error)\<close>.
\<close>

definition add_files_except :: "py_exception \<Rightarrow> response" where
  "add_files_except error =
     (if cls error = InvalidPath then
        generate_http_error_flask 400 ''InvalidPath'' (args0 error)
      else if cls error = AccessDenied then
        generate_http_error_flask 401 ''AccessDenied'' (args0 error)
      else if cls error = UnsupportedOperation then
        generate_http_error_flask 405 ''UnsupportedOperation'' (args0 error)
      else if cls error = Duplicate then
        generate_http_error_flask 409 ''Duplicate'' (args0 error)
      else if cls error = DataIdentifierAlreadyExists then
        generate_http_error_flask 409 ''DataIdentifierAlreadyExists'' (args0 error)
      else if cls error = RSENotFound then
        generate_http_error_flask 404 ''RSENotFound'' (args0 error)
      else if cls error = DatabaseException then
        generate_http_error_flask 503 ''DatabaseException'' (args0 error)
      else if cls error = ResourceTemporaryUnavailable then
        generate_http_error_flask 503 ''ResourceTemporaryUnavailable'' (args0 error)
      else if is_RucioException (cls error) then
        generate_http_error_flask 500 (class_name (cls error)) (args0 error)
      else Response (Text (as_str error)) 500)"

definition add_files_call :: "request \<Rightarrow> json \<Rightarrow> json \<Rightarrow> api_call" where
  "add_files_call req lfns ignore_availability =
     Add_files lfns (environ_get req ''issuer'') ignore_availability"

text \<open>
  \<^verbatim>\<open>AddFiles.post\<close>. \<open>parse_response\<close> is the decoder of \<^verbatim>\<open>rucio.common.utils\<close>. The
  arguments of \<^verbatim>\<open>add_files\<close> are evaluated inside the second \<^verbatim>\<open>try\<close>, from left to
  right, so what \<^verbatim>\<open>parameters['lfns']\<close> or \<^verbatim>\<open>parameters.get\<close> raises goes through the
  same \<^verbatim>\<open>except\<close> clauses as what \<^verbatim>\<open>add_files\<close> raises.
\<close>

definition AddFiles_post ::
  "(string \<Rightarrow> py_exception + json) \<Rightarrow> (api_call \<Rightarrow> outcome) \<Rightarrow> request \<Rightarrow> handler_result" where
  "AddFiles_post parse_response api req =
     (case parse_response (request_data req) of
        Inl error \<Rightarrow>
          (if cls error = ValueError \<or> cls error = InvalidType then
             ([], Inr (generate_http_error_flask 400 ''ValueError''
                         ''Cannot decode json parameter list''))
           else ([], Inl error))
      | Inr parameters \<Rightarrow>
          (case getitem parameters ''lfns'' of
             Inl error \<Rightarrow> ([], Inr (add_files_except error))
           | Inr lfns \<Rightarrow>
               (case dict_get parameters ''ignore_availability'' (JBool False) of
                  Inl error \<Rightarrow> ([], Inr (add_files_except error))
                | Inr ignore_availability \<Rightarrow>
                    (case api (add_files_call req lfns ignore_availability) of
                       Raises error \<Rightarrow>
                         ([add_files_call req lfns ignore_availability],
                          Inr (add_files_except error))
                     | Returns \<Rightarrow>
                         ([add_files_call req lfns ignore_availability],
                          Inr (Response (Text ''Created'') 201))))))"

section \<open>Example inputs\<close>

text \<open>
  \<^verbatim>\<open>json.loads\<close> on the bodies of the examples below: four JSON bodies that decode,
  the literal \<^verbatim>\<open>NaN\<close>, which is not JSON but which Python's decoder accepts as a
  float, and the error Python raises for a body it cannot decode (the empty body and
  \<^verbatim>\<open>not json\<close> are the ones used). A \<^verbatim>\<open>JSONDecodeError\<close> is a \<^verbatim>\<open>ValueError\<close>.
\<close>

definition example_decoder :: "string \<Rightarrow> py_exception + json" where
  \<open>example_decoder b =
     (if b = ''{"bytes": 1000}'' then Inr (JObject [(''bytes'', JInt 1000)])
      else if b = ''{}'' then Inr (JObject [])
      else if b = ''[1000]'' then Inr (JArray [JInt 1000])
      else if b = ''{"lfns": []}'' then Inr (JObject [(''lfns'', JArray [])])
      else if b = ''NaN'' then Inr (JFloat ''nan'')
      else Inl \<lparr>cls = ValueError, args0 = ''Expecting value: line 1 column 1 (char 0)'',
                 as_str = ''Expecting value: line 1 column 1 (char 0)''\<rparr>)\<close>

text \<open>A request with the given body, authenticated as \<^verbatim>\<open>root\<close> in the VO \<^verbatim>\<open>def\<close>.\<close>

definition example_request :: "string \<Rightarrow> request" where
  "example_request b =
     \<lparr>request_data = b, environ = [(''issuer'', ''root''), (''vo'', ''def'')]\<rparr>"

text \<open>A downstream error of the given class.\<close>

definition example_error :: "exc_class \<Rightarrow> py_exception" where
  "example_error c = \<lparr>cls = c, args0 = ''refused'', as_str = ''refused''\<rparr>"

section \<open>Properties of the handlers\<close>

lemma getitem_not_object:
  assumes "\<And>kv. v \<noteq> JObject kv"
  shows "\<exists>m. getitem v key = Inl (type_error m)"
  using assms by (cases v) auto

lemma example_decoder_empty_object:
  "example_decoder (request_data (example_request ''{}'')) = Inr (JObject [])"
  by (simp add: example_decoder_def example_request_def)

text \<open>
  Claim C1. \<^verbatim>\<open>LocalAccountLimit.post\<close> and \<^verbatim>\<open>GlobalAccountLimit.post\<close> catch the
  \<^verbatim>\<open>KeyError\<close> of a missing field and answer it with status 400 only when
  \<^verbatim>\<open>error.args[0] == 'type'\<close>. The field they read is \<^verbatim>\<open>bytes\<close>, so for every body
  that decodes to an object without the key \<^verbatim>\<open>bytes\<close> the comparison fails and the
  \<^verbatim>\<open>KeyError\<close> is raised again: no downstream call is made and no response is
  returned, the exception \<^verbatim>\<open>KeyError('bytes')\<close> leaves the handler.
\<close>

theorem limit_post_missing_bytes_raises:
  assumes "loads (request_data req) = Inr (JObject kv)"
    and "map_of kv ''bytes'' = None"
  shows "LocalAccountLimit_post loads api req account rse = ([], Inl (key_error ''bytes''))
       \<and> GlobalAccountLimit_post loads api req account rse_expression
           = ([], Inl (key_error ''bytes''))"
  using assms
  by (simp add: LocalAccountLimit_post_def GlobalAccountLimit_post_def key_error_def)

text \<open>The body \<^verbatim>\<open>{}\<close> of Scenario C, sent to both handlers.\<close>

theorem limit_post_missing_bytes_raises_witness:
  "LocalAccountLimit_post example_decoder (\<lambda>c. Returns) (example_request ''{}'') ''alice'' ''RSE1''
     = ([], Inl (key_error ''bytes''))
   \<and> GlobalAccountLimit_post example_decoder (\<lambda>c. Returns) (example_request ''{}'') ''alice''
       ''RSE1|RSE2'' = ([], Inl (key_error ''bytes''))"
proof -
  have m: "map_of ([] :: (string \<times> json) list) ''bytes'' = None"
    by simp
  show ?thesis
    using limit_post_missing_bytes_raises [where loads = example_decoder
        and req = "example_request ''{}''" and kv = "[]" and api = "\<lambda>c. Returns"
        and account = "''alice''" and rse = "''RSE1''" and rse_expression = "''RSE1|RSE2''",
        OF example_decoder_empty_object m]
    by simp
qed

subsection \<open>Which requests end without a response\<close>

text \<open>
  The deletion handlers answer every downstream outcome, and \<^verbatim>\<open>AddFiles.post\<close>
  answers every request as long as its decoder raises nothing but \<^verbatim>\<open>ValueError\<close> or
  \<^verbatim>\<open>InvalidType\<close>.
\<close>

lemma delete_handlers_respond:
  "response_status (LocalAccountLimit_delete api req account rse) \<noteq> None
   \<and> response_status (GlobalAccountLimit_delete api req account rse_expression) \<noteq> None"
  by (simp add: response_status_def LocalAccountLimit_delete_def GlobalAccountLimit_delete_def
      split: outcome.splits)

lemma AddFiles_post_responds:
  assumes "\<And>error. parse_response (request_data req) = Inl error
             \<Longrightarrow> cls error = ValueError \<or> cls error = InvalidType"
  shows "response_status (AddFiles_post parse_response api req) \<noteq> None"
  using assms
  by (auto simp add: response_status_def AddFiles_post_def split: sum.splits outcome.splits)

lemma getitem_Inl_cases:
  "getitem v key = Inl error \<Longrightarrow>
     (cls error = TypeError \<and> (\<forall>kv. v \<noteq> JObject kv))
     \<or> (error = key_error key \<and> (\<exists>kv. v = JObject kv \<and> map_of kv key = None))"
  by (cases v) (auto simp add: type_error_def split: option.splits)

text \<open>
  \<^verbatim>\<open>LocalAccountLimit.post\<close> ends without a response exactly when the decoder raises
  something other than \<^verbatim>\<open>ValueError\<close>, or the body is an object without \<^verbatim>\<open>bytes\<close>.
\<close>

lemma LocalAccountLimit_post_no_response_iff:
  "response_status (LocalAccountLimit_post loads api req account rse) = None
     \<longleftrightarrow> (\<exists>error. loads (request_data req) = Inl error \<and> cls error \<noteq> ValueError)
        \<or> (\<exists>kv. loads (request_data req) = Inr (JObject kv) \<and> map_of kv ''bytes'' = None)"
proof (cases "loads (request_data req)")
  case (Inl error)
  then show ?thesis
    by (simp add: response_status_def LocalAccountLimit_post_def)
next
  case (Inr parameter)
  show ?thesis
  proof (cases "getitem parameter ''bytes''")
    case (Inl error)
    from getitem_Inl_cases [OF Inl] Inr Inl show ?thesis
      by (auto simp add: response_status_def LocalAccountLimit_post_def key_error_def)
  next
    case inner: (Inr bytes)
    then have "\<not> (\<exists>kv. parameter = JObject kv \<and> map_of kv ''bytes'' = None)"
      by (auto split: option.splits)
    with Inr inner show ?thesis
      by (auto simp add: response_status_def LocalAccountLimit_post_def split: outcome.splits)
  qed
qed

text \<open>
  Claim C2. Not every request ends in a response: for the body \<^verbatim>\<open>{}\<close>, which is an
  object without \<^verbatim>\<open>bytes\<close>, neither limit-creation handler returns a response (the
  result has no status), although the downstream operation would have succeeded.
\<close>

theorem limit_post_no_response:
  "response_status (LocalAccountLimit_post example_decoder (\<lambda>c. Returns)
       (example_request ''{}'') ''alice'' ''RSE1'') = None
   \<and> response_status (GlobalAccountLimit_post example_decoder (\<lambda>c. Returns)
       (example_request ''{}'') ''alice'' ''RSE1|RSE2'') = None"
  by (simp add: response_status_def LocalAccountLimit_post_def GlobalAccountLimit_post_def
      example_decoder_def example_request_def key_error_def)

text \<open>
  Claim C3, as stated, fails: for the body \<^verbatim>\<open>{}\<close>, an object without \<^verbatim>\<open>lfns\<close>, the
  status of the response of \<^verbatim>\<open>AddFiles.post\<close> is not 400.
\<close>

theorem AddFiles_missing_lfns_counterexample:
  "response_status (AddFiles_post example_decoder (\<lambda>c. Returns) (example_request ''{}''))
     \<noteq> Some 400"
  by (simp add: response_status_def AddFiles_post_def example_decoder_def example_request_def
      key_error_def add_files_except_def)

text \<open>
  Claim C3, amended. For every body that decodes to an object without the key
  \<^verbatim>\<open>lfns\<close>, \<^verbatim>\<open>AddFiles.post\<close> never invokes \<^verbatim>\<open>add_files\<close> and returns status 500: the
  \<^verbatim>\<open>KeyError\<close> is raised inside the \<^verbatim>\<open>try\<close> and reaches its last clause, which
  sends \<^verbatim>\<open>str(error)\<close>, the key between quotes, as the body.
\<close>

theorem AddFiles_missing_lfns:
  assumes "parse_response (request_data req) = Inr (JObject kv)"
    and "map_of kv ''lfns'' = None"
  shows "calls (AddFiles_post parse_response api req) = []
       \<and> returned (AddFiles_post parse_response api req)
           = Inr (Response (Text (repr_key ''lfns'')) 500)"
  using assms
  by (simp add: AddFiles_post_def calls_def returned_def key_error_def add_files_except_def)

text \<open>The body \<^verbatim>\<open>{}\<close> sent to \<^verbatim>\<open>AddFiles.post\<close>.\<close>

theorem AddFiles_missing_lfns_witness:
  "calls (AddFiles_post example_decoder (\<lambda>c. Returns) (example_request ''{}'')) = []
   \<and> returned (AddFiles_post example_decoder (\<lambda>c. Returns) (example_request ''{}''))
       = Inr (Response (Text (repr_key ''lfns'')) 500)"
proof -
  have m: "map_of ([] :: (string \<times> json) list) ''lfns'' = None"
    by simp
  show ?thesis
    using AddFiles_missing_lfns [where parse_response = example_decoder
        and req = "example_request ''{}''" and kv = "[]" and api = "\<lambda>c. Returns",
        OF example_decoder_empty_object m]
    by simp
qed

text \<open>
  Claim C5, as stated, fails. The body \<^verbatim>\<open>NaN\<close> is not valid JSON, but Python's decoder
  accepts it and returns a float. The limit-creation handlers then answer the
  \<^verbatim>\<open>TypeError\<close> of the subscript, so the kind of their response is not \<^verbatim>\<open>ValueError\<close>,
  and in \<^verbatim>\<open>AddFiles.post\<close> the same \<^verbatim>\<open>TypeError\<close> reaches the last clause, so its status
  is not 400.
\<close>

theorem undecodable_body_counterexample:
  "returned (LocalAccountLimit_post example_decoder (\<lambda>c. Returns) (example_request ''NaN'')
       ''alice'' ''RSE1'')
     \<noteq> Inr (generate_http_error_flask 400 ''ValueError''
              ''cannot decode json parameter dictionary'')
   \<and> returned (GlobalAccountLimit_post example_decoder (\<lambda>c. Returns) (example_request ''NaN'')
       ''alice'' ''RSE1|RSE2'')
     \<noteq> Inr (generate_http_error_flask 400 ''ValueError''
              ''cannot decode json parameter dictionary'')
   \<and> response_status (AddFiles_post example_decoder (\<lambda>c. Returns) (example_request ''NaN''))
     \<noteq> Some 400"
  by (simp add: returned_def response_status_def LocalAccountLimit_post_def
      GlobalAccountLimit_post_def AddFiles_post_def example_decoder_def example_request_def
      type_error_def add_files_except_def generate_http_error_flask_def)

text \<open>
  Claim C5, amended. For every body on which the decoder raises \<^verbatim>\<open>ValueError\<close> (as
  \<^verbatim>\<open>json.loads\<close> does on the empty body and on every body it cannot decode), the two
  limit-creation handlers return status 400 with kind \<^verbatim>\<open>ValueError\<close> and message
  \<^verbatim>\<open>cannot decode json parameter dictionary\<close>, and \<^verbatim>\<open>AddFiles.post\<close> returns status 400
  with kind \<^verbatim>\<open>ValueError\<close> and message \<^verbatim>\<open>Cannot decode json parameter list\<close>; none of
  them makes a downstream call.
\<close>

theorem undecodable_body_400:
  assumes "decode (request_data req) = Inl error"
    and "cls error = ValueError"
  shows "LocalAccountLimit_post decode api req account rse
           = ([], Inr (generate_http_error_flask 400 ''ValueError''
                         ''cannot decode json parameter dictionary''))
       \<and> GlobalAccountLimit_post decode api req account rse_expression
           = ([], Inr (generate_http_error_flask 400 ''ValueError''
                         ''cannot decode json parameter dictionary''))
       \<and> AddFiles_post decode api req
           = ([], Inr (generate_http_error_flask 400 ''ValueError''
                         ''Cannot decode json parameter list''))"
  using assms
  by (simp add: LocalAccountLimit_post_def GlobalAccountLimit_post_def AddFiles_post_def)

text \<open>The empty body sent to the three handlers.\<close>

theorem undecodable_body_400_witness:
  "LocalAccountLimit_post example_decoder (\<lambda>c. Returns) (example_request '''') ''alice'' ''RSE1''
     = ([], Inr (Response (ErrorObject ''ValueError''
                   ''cannot decode json parameter dictionary'') 400))
   \<and> GlobalAccountLimit_post example_decoder (\<lambda>c. Returns) (example_request '''') ''alice''
       ''RSE1|RSE2''
     = ([], Inr (Response (ErrorObject ''ValueError''
                   ''cannot decode json parameter dictionary'') 400))
   \<and> AddFiles_post example_decoder (\<lambda>c. Returns) (example_request '''')
     = ([], Inr (Response (ErrorObject ''ValueError''
                   ''Cannot decode json parameter list'') 400))"
proof -
  let ?e = "\<lparr>cls = ValueError, args0 = ''Expecting value: line 1 column 1 (char 0)'',
             as_str = ''Expecting value: line 1 column 1 (char 0)''\<rparr>"
  have d: "example_decoder (request_data (example_request '''')) = Inl ?e"
    by (simp add: example_decoder_def example_request_def)
  have c: "cls ?e = ValueError"
    by simp
  show ?thesis
    using undecodable_body_400 [where decode = example_decoder
        and req = "example_request ''''" and error = ?e and api = "\<lambda>c. Returns"
        and account = "''alice''" and rse = "''RSE1''" and rse_expression = "''RSE1|RSE2''",
        OF d c]
    by (simp add: generate_http_error_flask_def)
qed

text \<open>
  Claim C6. For every body that decodes to a value that is not an object (an array,
  a string, a number, a boolean or null), the two limit-creation handlers return
  status 400 with kind \<^verbatim>\<open>TypeError\<close> and message \<^verbatim>\<open>body must be a json dictionary\<close>,
  without a downstream call.
\<close>

theorem non_object_body_400:
  assumes "loads (request_data req) = Inr v"
    and "\<And>kv. v \<noteq> JObject kv"
  shows "LocalAccountLimit_post loads api req account rse
           = ([], Inr (generate_http_error_flask 400 ''TypeError''
                         ''body must be a json dictionary''))
       \<and> GlobalAccountLimit_post loads api req account rse_expression
           = ([], Inr (generate_http_error_flask 400 ''TypeError''
                         ''body must be a json dictionary''))"
proof -
  obtain m where "getitem v ''bytes'' = Inl (type_error m)"
    using getitem_not_object [OF assms(2)] by blast
  with assms(1) show ?thesis
    by (simp add: LocalAccountLimit_post_def GlobalAccountLimit_post_def type_error_def)
qed

text \<open>The body \<^verbatim>\<open>[1000]\<close>, a JSON array, sent to both handlers.\<close>

theorem non_object_body_400_witness:
  "LocalAccountLimit_post example_decoder (\<lambda>c. Returns) (example_request ''[1000]'') ''alice''
       ''RSE1''
     = ([], Inr (Response (ErrorObject ''TypeError'' ''body must be a json dictionary'') 400))
   \<and> GlobalAccountLimit_post example_decoder (\<lambda>c. Returns) (example_request ''[1000]'')
       ''alice'' ''RSE1|RSE2''
     = ([], Inr (Response (ErrorObject ''TypeError'' ''body must be a json dictionary'') 400))"
proof -
  have d: "example_decoder (request_data (example_request ''[1000]'')) = Inr (JArray [JInt 1000])"
    by (simp add: example_decoder_def example_request_def)
  have n: "\<And>kv. JArray [JInt 1000] \<noteq> JObject kv"
    by simp
  show ?thesis
    using non_object_body_400 [where loads = example_decoder
        and req = "example_request ''[1000]''" and v = "JArray [JInt 1000]"
        and api = "\<lambda>c. Returns" and account = "''alice''" and rse = "''RSE1''"
        and rse_expression = "''RSE1|RSE2''", OF d n]
    by (simp add: generate_http_error_flask_def)
qed

subsection \<open>What the downstream outcome becomes\<close>

lemma example_decoder_bytes:
  \<open>example_decoder (request_data (example_request ''{"bytes": 1000}''))
     = Inr (JObject [(''bytes'', JInt 1000)])\<close>
  by (simp add: example_decoder_def example_request_def)

lemma example_decoder_lfns:
  \<open>example_decoder (request_data (example_request ''{"lfns": []}''))
     = Inr (JObject [(''lfns'', JArray [])])\<close>
  by (simp add: example_decoder_def example_request_def)

lemma set_limit_except_AccessDenied:
  "cls error = AccessDenied
     \<Longrightarrow> set_limit_except error = generate_http_error_flask 401 ''AccessDenied'' (args0 error)"
  by (simp add: set_limit_except_def)

lemma delete_limit_except_AccessDenied:
  "cls error = AccessDenied
     \<Longrightarrow> delete_limit_except error = generate_http_error_flask 401 ''AccessDenied'' (args0 error)"
  by (simp add: delete_limit_except_def)

lemma add_files_except_AccessDenied:
  "cls error = AccessDenied
     \<Longrightarrow> add_files_except error = generate_http_error_flask 401 ''AccessDenied'' (args0 error)"
  by (simp add: add_files_except_def)

text \<open>
  Claim C4, as stated, fails: \<^verbatim>\<open>InvalidPath\<close> is a domain error and is none of the
  seven kinds the claim excludes, yet when \<^verbatim>\<open>add_files\<close> raises it the status of the
  response is not 500 (the first \<^verbatim>\<open>except\<close> clause answers it with 400).
\<close>

theorem AddFiles_InvalidPath_counterexample:
  \<open>response_status (AddFiles_post example_decoder (\<lambda>c. Raises (example_error InvalidPath))
       (example_request ''{"lfns": []}'')) \<noteq> Some 500\<close>
  by (simp add: response_status_def AddFiles_post_def example_decoder_def example_request_def
      example_error_def add_files_except_def generate_http_error_flask_def)

text \<open>
  Claim C4, amended. For every domain error (an instance of \<^verbatim>\<open>RucioException\<close>)
  raised by \<^verbatim>\<open>add_files\<close> other than \<^verbatim>\<open>AccessDenied\<close>, \<^verbatim>\<open>RSENotFound\<close>,
  \<^verbatim>\<open>UnsupportedOperation\<close>, \<^verbatim>\<open>Duplicate\<close>, \<^verbatim>\<open>DataIdentifierAlreadyExists\<close>,
  \<^verbatim>\<open>DatabaseException\<close> and \<^verbatim>\<open>ResourceTemporaryUnavailable\<close>, \<^verbatim>\<open>AddFiles.post\<close>
  returns the error's own class name as the kind and the error's message, with status
  500, except for \<^verbatim>\<open>InvalidPath\<close>, whose status is 400.
\<close>

theorem AddFiles_other_domain_error:
  assumes "parse_response (request_data req) = Inr parameters"
    and "getitem parameters ''lfns'' = Inr lfns"
    and "dict_get parameters ''ignore_availability'' (JBool False) = Inr ignore_availability"
    and "api (add_files_call req lfns ignore_availability) = Raises error"
    and "is_RucioException (cls error)"
    and "cls error \<notin> {AccessDenied, RSENotFound, UnsupportedOperation, Duplicate,
           DataIdentifierAlreadyExists, DatabaseException, ResourceTemporaryUnavailable}"
  shows "returned (AddFiles_post parse_response api req)
           = Inr (generate_http_error_flask (if cls error = InvalidPath then 400 else 500)
                    (class_name (cls error)) (args0 error))"
proof -
  have "add_files_except error
          = generate_http_error_flask (if cls error = InvalidPath then 400 else 500)
              (class_name (cls error)) (args0 error)"
    using assms(5,6) by (simp add: add_files_except_def)
  then show ?thesis
    using assms(1-4) by (simp add: AddFiles_post_def returned_def)
qed

text \<open>
  \<^verbatim>\<open>add_files\<close> raising \<^verbatim>\<open>InvalidType\<close>, a further subclass \<^verbatim>\<open>ScopeNotFound\<close>, and
  \<^verbatim>\<open>InvalidPath\<close>, on the body \<^verbatim>\<open>{"lfns": []}\<close>.
\<close>

theorem AddFiles_other_domain_error_witness:
  \<open>returned (AddFiles_post example_decoder (\<lambda>c. Raises (example_error InvalidType))
       (example_request ''{"lfns": []}''))
     = Inr (Response (ErrorObject ''InvalidType'' ''refused'') 500)
   \<and> returned (AddFiles_post example_decoder
         (\<lambda>c. Raises (example_error (OtherRucioException ''ScopeNotFound'')))
         (example_request ''{"lfns": []}''))
     = Inr (Response (ErrorObject ''ScopeNotFound'' ''refused'') 500)
   \<and> returned (AddFiles_post example_decoder (\<lambda>c. Raises (example_error InvalidPath))
       (example_request ''{"lfns": []}''))
     = Inr (Response (ErrorObject ''InvalidPath'' ''refused'') 400)\<close>
proof -
  let ?req = \<open>example_request ''{"lfns": []}''\<close>
  let ?p = "JObject [(''lfns'', JArray [])]"
  have g: "getitem ?p ''lfns'' = Inr (JArray [])"
    by simp
  have i: "dict_get ?p ''ignore_availability'' (JBool False) = Inr (JBool False)"
    by simp
  note w = AddFiles_other_domain_error [where parse_response = example_decoder and req = ?req
      and parameters = ?p and lfns = "JArray []" and ignore_availability = "JBool False",
      OF example_decoder_lfns g i]
  have "returned (AddFiles_post example_decoder (\<lambda>c. Raises (example_error InvalidType)) ?req)
          = Inr (Response (ErrorObject ''InvalidType'' ''refused'') 500)"
    using w [where api = "\<lambda>c. Raises (example_error InvalidType)"
        and error = "example_error InvalidType"]
    by (simp add: example_error_def generate_http_error_flask_def)
  moreover have "returned (AddFiles_post example_decoder
        (\<lambda>c. Raises (example_error (OtherRucioException ''ScopeNotFound''))) ?req)
          = Inr (Response (ErrorObject ''ScopeNotFound'' ''refused'') 500)"
    using w [where api = "\<lambda>c. Raises (example_error (OtherRucioException ''ScopeNotFound''))"
        and error = "example_error (OtherRucioException ''ScopeNotFound'')"]
    by (simp add: example_error_def generate_http_error_flask_def)
  moreover have "returned (AddFiles_post example_decoder
        (\<lambda>c. Raises (example_error InvalidPath)) ?req)
          = Inr (Response (ErrorObject ''InvalidPath'' ''refused'') 400)"
    using w [where api = "\<lambda>c. Raises (example_error InvalidPath)"
        and error = "example_error InvalidPath"]
    by (simp add: example_error_def generate_http_error_flask_def)
  ultimately show ?thesis
    by simp
qed

text \<open>
  Claim C7. In each of the five operations (local limit create and delete, global
  limit create and delete, bulk registration), whenever the downstream call raises
  \<^verbatim>\<open>AccessDenied\<close> the handler returns status 401 with kind \<^verbatim>\<open>AccessDenied\<close> and the
  error's message. The three creation handlers reach the downstream call when the
  body decodes and holds the field they read.
\<close>

theorem AccessDenied_401:
  assumes "cls error = AccessDenied"
  shows "(loads (request_data req) = Inr parameter \<and> getitem parameter ''bytes'' = Inr bytes
            \<and> api (set_local_call req account rse bytes) = Raises error
          \<longrightarrow> returned (LocalAccountLimit_post loads api req account rse)
                = Inr (generate_http_error_flask 401 ''AccessDenied'' (args0 error)))
       \<and> (api (delete_local_call req account rse) = Raises error
          \<longrightarrow> returned (LocalAccountLimit_delete api req account rse)
                = Inr (generate_http_error_flask 401 ''AccessDenied'' (args0 error)))
       \<and> (loads (request_data req) = Inr parameter \<and> getitem parameter ''bytes'' = Inr bytes
            \<and> api (set_global_call req account rse_expression bytes) = Raises error
          \<longrightarrow> returned (GlobalAccountLimit_post loads api req account rse_expression)
                = Inr (generate_http_error_flask 401 ''AccessDenied'' (args0 error)))
       \<and> (api (delete_global_call req account rse_expression) = Raises error
          \<longrightarrow> returned (GlobalAccountLimit_delete api req account rse_expression)
                = Inr (generate_http_error_flask 401 ''AccessDenied'' (args0 error)))
       \<and> (parse_response (request_data req') = Inr parameters
            \<and> getitem parameters ''lfns'' = Inr lfns
            \<and> dict_get parameters ''ignore_availability'' (JBool False) = Inr ignore_availability
            \<and> api (add_files_call req' lfns ignore_availability) = Raises error
          \<longrightarrow> returned (AddFiles_post parse_response api req')
                = Inr (generate_http_error_flask 401 ''AccessDenied'' (args0 error)))"
proof (intro conjI impI)
  assume "loads (request_data req) = Inr parameter \<and> getitem parameter ''bytes'' = Inr bytes
            \<and> api (set_local_call req account rse bytes) = Raises error"
  then show "returned (LocalAccountLimit_post loads api req account rse)
                = Inr (generate_http_error_flask 401 ''AccessDenied'' (args0 error))"
    using set_limit_except_AccessDenied [OF assms]
    by (simp add: LocalAccountLimit_post_def returned_def)
next
  assume "api (delete_local_call req account rse) = Raises error"
  then show "returned (LocalAccountLimit_delete api req account rse)
                = Inr (generate_http_error_flask 401 ''AccessDenied'' (args0 error))"
    using delete_limit_except_AccessDenied [OF assms]
    by (simp add: LocalAccountLimit_delete_def returned_def)
next
  assume "loads (request_data req) = Inr parameter \<and> getitem parameter ''bytes'' = Inr bytes
            \<and> api (set_global_call req account rse_expression bytes) = Raises error"
  then show "returned (GlobalAccountLimit_post loads api req account rse_expression)
                = Inr (generate_http_error_flask 401 ''AccessDenied'' (args0 error))"
    using set_limit_except_AccessDenied [OF assms]
    by (simp add: GlobalAccountLimit_post_def returned_def)
next
  assume "api (delete_global_call req account rse_expression) = Raises error"
  then show "returned (GlobalAccountLimit_delete api req account rse_expression)
                = Inr (generate_http_error_flask 401 ''AccessDenied'' (args0 error))"
    using delete_limit_except_AccessDenied [OF assms]
    by (simp add: GlobalAccountLimit_delete_def returned_def)
next
  assume "parse_response (request_data req') = Inr parameters
            \<and> getitem parameters ''lfns'' = Inr lfns
            \<and> dict_get parameters ''ignore_availability'' (JBool False) = Inr ignore_availability
            \<and> api (add_files_call req' lfns ignore_availability) = Raises error"
  then show "returned (AddFiles_post parse_response api req')
                = Inr (generate_http_error_flask 401 ''AccessDenied'' (args0 error))"
    using add_files_except_AccessDenied [OF assms]
    by (simp add: AddFiles_post_def returned_def)
qed

text \<open>All five handlers, with a downstream that refuses every call.\<close>

theorem AccessDenied_401_witness:
  \<open>returned (LocalAccountLimit_post example_decoder (\<lambda>c. Raises (example_error AccessDenied))
       (example_request ''{"bytes": 1000}'') ''alice'' ''RSE1'')
     = Inr (Response (ErrorObject ''AccessDenied'' ''refused'') 401)
   \<and> returned (LocalAccountLimit_delete (\<lambda>c. Raises (example_error AccessDenied))
       (example_request ''{"bytes": 1000}'') ''alice'' ''RSE1'')
     = Inr (Response (ErrorObject ''AccessDenied'' ''refused'') 401)
   \<and> returned (GlobalAccountLimit_post example_decoder (\<lambda>c. Raises (example_error AccessDenied))
       (example_request ''{"bytes": 1000}'') ''alice'' ''RSE1|RSE2'')
     = Inr (Response (ErrorObject ''AccessDenied'' ''refused'') 401)
   \<and> returned (GlobalAccountLimit_delete (\<lambda>c. Raises (example_error AccessDenied))
       (example_request ''{"bytes": 1000}'') ''alice'' ''RSE1|RSE2'')
     = Inr (Response (ErrorObject ''AccessDenied'' ''refused'') 401)
   \<and> returned (AddFiles_post example_decoder (\<lambda>c. Raises (example_error AccessDenied))
       (example_request ''{"lfns": []}''))
     = Inr (Response (ErrorObject ''AccessDenied'' ''refused'') 401)\<close>
proof -
  have c: "cls (example_error AccessDenied) = AccessDenied"
    by (simp add: example_error_def)
  show ?thesis
    using AccessDenied_401 [where error = "example_error AccessDenied"
        and loads = example_decoder and parse_response = example_decoder
        and api = "\<lambda>c. Raises (example_error AccessDenied)"
        and req = \<open>example_request ''{"bytes": 1000}''\<close>
        and req' = \<open>example_request ''{"lfns": []}''\<close>
        and parameter = "JObject [(''bytes'', JInt 1000)]" and bytes = "JInt 1000"
        and parameters = "JObject [(''lfns'', JArray [])]" and lfns = "JArray []"
        and ignore_availability = "JBool False"
        and account = "''alice''" and rse = "''RSE1''" and rse_expression = "''RSE1|RSE2''",
        OF c]
    by (simp add: example_decoder_bytes example_decoder_lfns example_error_def
        generate_http_error_flask_def)
qed

text \<open>
  Claim C8. When the \<^verbatim>\<open>add_files\<close> call of \<^verbatim>\<open>AddFiles.post\<close> raises one of the
  enumerated kinds, the response has the mapped status, that kind and the error's
  message: \<^verbatim>\<open>UnsupportedOperation\<close> 405, \<^verbatim>\<open>Duplicate\<close> 409,
  \<^verbatim>\<open>DataIdentifierAlreadyExists\<close> 409, \<^verbatim>\<open>DatabaseException\<close> 503,
  \<^verbatim>\<open>ResourceTemporaryUnavailable\<close> 503, \<^verbatim>\<open>RSENotFound\<close> 404.
\<close>

theorem AddFiles_error_statuses:
  assumes "parse_response (request_data req) = Inr parameters"
    and "getitem parameters ''lfns'' = Inr lfns"
    and "dict_get parameters ''ignore_availability'' (JBool False) = Inr ignore_availability"
    and "api (add_files_call req lfns ignore_availability) = Raises error"
  shows "(cls error = UnsupportedOperation
          \<longrightarrow> returned (AddFiles_post parse_response api req)
                = Inr (generate_http_error_flask 405 ''UnsupportedOperation'' (args0 error)))
       \<and> (cls error = Duplicate
          \<longrightarrow> returned (AddFiles_post parse_response api req)
                = Inr (generate_http_error_flask 409 ''Duplicate'' (args0 error)))
       \<and> (cls error = DataIdentifierAlreadyExists
          \<longrightarrow> returned (AddFiles_post parse_response api req)
                = Inr (generate_http_error_flask 409 ''DataIdentifierAlreadyExists''
                         (args0 error)))
       \<and> (cls error = DatabaseException
          \<longrightarrow> returned (AddFiles_post parse_response api req)
                = Inr (generate_http_error_flask 503 ''DatabaseException'' (args0 error)))
       \<and> (cls error = ResourceTemporaryUnavailable
          \<longrightarrow> returned (AddFiles_post parse_response api req)
                = Inr (generate_http_error_flask 503 ''ResourceTemporaryUnavailable''
                         (args0 error)))
       \<and> (cls error = RSENotFound
          \<longrightarrow> returned (AddFiles_post parse_response api req)
                = Inr (generate_http_error_flask 404 ''RSENotFound'' (args0 error)))"
proof -
  have "returned (AddFiles_post parse_response api req) = Inr (add_files_except error)"
    using assms by (simp add: AddFiles_post_def returned_def)
  then show ?thesis
    by (simp add: add_files_except_def)
qed

text \<open>
  Each of the six kinds, raised by \<^verbatim>\<open>add_files\<close> on the body \<^verbatim>\<open>{"lfns": []}\<close>;
  \<^verbatim>\<open>DataIdentifierAlreadyExists\<close> is Scenario E.
\<close>

theorem AddFiles_error_statuses_witness:
  \<open>returned (AddFiles_post example_decoder (\<lambda>c. Raises (example_error UnsupportedOperation))
       (example_request ''{"lfns": []}''))
     = Inr (Response (ErrorObject ''UnsupportedOperation'' ''refused'') 405)
   \<and> returned (AddFiles_post example_decoder (\<lambda>c. Raises (example_error Duplicate))
       (example_request ''{"lfns": []}''))
     = Inr (Response (ErrorObject ''Duplicate'' ''refused'') 409)
   \<and> returned (AddFiles_post example_decoder (\<lambda>c. Raises (example_error DataIdentifierAlreadyExists))
       (example_request ''{"lfns": []}''))
     = Inr (Response (ErrorObject ''DataIdentifierAlreadyExists'' ''refused'') 409)
   \<and> returned (AddFiles_post example_decoder (\<lambda>c. Raises (example_error DatabaseException))
       (example_request ''{"lfns": []}''))
     = Inr (Response (ErrorObject ''DatabaseException'' ''refused'') 503)
   \<and> returned (AddFiles_post example_decoder (\<lambda>c. Raises (example_error ResourceTemporaryUnavailable))
       (example_request ''{"lfns": []}''))
     = Inr (Response (ErrorObject ''ResourceTemporaryUnavailable'' ''refused'') 503)
   \<and> returned (AddFiles_post example_decoder (\<lambda>c. Raises (example_error RSENotFound))
       (example_request ''{"lfns": []}''))
     = Inr (Response (ErrorObject ''RSENotFound'' ''refused'') 404)\<close>
proof -
  let ?req = \<open>example_request ''{"lfns": []}''\<close>
  let ?p = "JObject [(''lfns'', JArray [])]"
  have g: "getitem ?p ''lfns'' = Inr (JArray [])"
    by simp
  have i: "dict_get ?p ''ignore_availability'' (JBool False) = Inr (JBool False)"
    by simp
  note w = AddFiles_error_statuses [where parse_response = example_decoder and req = ?req
      and parameters = ?p and lfns = "JArray []" and ignore_availability = "JBool False",
      OF example_decoder_lfns g i]
  have \<open>returned (AddFiles_post example_decoder (\<lambda>c. Raises (example_error UnsupportedOperation)) ?req)
          = Inr (Response (ErrorObject ''UnsupportedOperation'' ''refused'') 405)\<close>
    using w [where api = "\<lambda>c. Raises (example_error UnsupportedOperation)"
        and error = "example_error UnsupportedOperation"]
    by (simp add: example_error_def generate_http_error_flask_def)
  moreover have \<open>returned (AddFiles_post example_decoder (\<lambda>c. Raises (example_error Duplicate)) ?req)
          = Inr (Response (ErrorObject ''Duplicate'' ''refused'') 409)\<close>
    using w [where api = "\<lambda>c. Raises (example_error Duplicate)"
        and error = "example_error Duplicate"]
    by (simp add: example_error_def generate_http_error_flask_def)
  moreover have \<open>returned (AddFiles_post example_decoder (\<lambda>c. Raises (example_error DataIdentifierAlreadyExists)) ?req)
          = Inr (Response (ErrorObject ''DataIdentifierAlreadyExists'' ''refused'') 409)\<close>
    using w [where api = "\<lambda>c. Raises (example_error DataIdentifierAlreadyExists)"
        and error = "example_error DataIdentifierAlreadyExists"]
    by (simp add: example_error_def generate_http_error_flask_def)
  moreover have \<open>returned (AddFiles_post example_decoder (\<lambda>c. Raises (example_error DatabaseException)) ?req)
          = Inr (Response (ErrorObject ''DatabaseException'' ''refused'') 503)\<close>
    using w [where api = "\<lambda>c. Raises (example_error DatabaseException)"
        and error = "example_error DatabaseException"]
    by (simp add: example_error_def generate_http_error_flask_def)
  moreover have \<open>returned (AddFiles_post example_decoder (\<lambda>c. Raises (example_error ResourceTemporaryUnavailable)) ?req)
          = Inr (Response (ErrorObject ''ResourceTemporaryUnavailable'' ''refused'') 503)\<close>
    using w [where api = "\<lambda>c. Raises (example_error ResourceTemporaryUnavailable)"
        and error = "example_error ResourceTemporaryUnavailable"]
    by (simp add: example_error_def generate_http_error_flask_def)
  moreover have \<open>returned (AddFiles_post example_decoder (\<lambda>c. Raises (example_error RSENotFound)) ?req)
          = Inr (Response (ErrorObject ''RSENotFound'' ''refused'') 404)\<close>
    using w [where api = "\<lambda>c. Raises (example_error RSENotFound)"
        and error = "example_error RSENotFound"]
    by (simp add: example_error_def generate_http_error_flask_def)
  ultimately show ?thesis
    by simp
qed

text \<open>
  Claim C9. Whenever the downstream call returns, the two deletion handlers return
  status 200 with an empty body, and the three creation handlers return status 201
  with the body \<^verbatim>\<open>Created\<close>.
\<close>

theorem success_responses:
  "(loads (request_data req) = Inr parameter \<and> getitem parameter ''bytes'' = Inr bytes
      \<and> api (set_local_call req account rse bytes) = Returns
    \<longrightarrow> returned (LocalAccountLimit_post loads api req account rse)
          = Inr (Response (Text ''Created'') 201))
   \<and> (api (delete_local_call req account rse) = Returns
    \<longrightarrow> returned (LocalAccountLimit_delete api req account rse) = Inr (Response (Text '''') 200))
   \<and> (loads (request_data req) = Inr parameter \<and> getitem parameter ''bytes'' = Inr bytes
      \<and> api (set_global_call req account rse_expression bytes) = Returns
    \<longrightarrow> returned (GlobalAccountLimit_post loads api req account rse_expression)
          = Inr (Response (Text ''Created'') 201))
   \<and> (api (delete_global_call req account rse_expression) = Returns
    \<longrightarrow> returned (GlobalAccountLimit_delete api req account rse_expression)
          = Inr (Response (Text '''') 200))
   \<and> (parse_response (request_data req') = Inr parameters
      \<and> getitem parameters ''lfns'' = Inr lfns
      \<and> dict_get parameters ''ignore_availability'' (JBool False) = Inr ignore_availability
      \<and> api (add_files_call req' lfns ignore_availability) = Returns
    \<longrightarrow> returned (AddFiles_post parse_response api req') = Inr (Response (Text ''Created'') 201))"
  by (simp add: LocalAccountLimit_post_def LocalAccountLimit_delete_def
      GlobalAccountLimit_post_def GlobalAccountLimit_delete_def AddFiles_post_def returned_def)

text \<open>Scenario A and its siblings, with a downstream that accepts every call.\<close>

theorem success_responses_witness:
  \<open>returned (LocalAccountLimit_post example_decoder (\<lambda>c. Returns)
       (example_request ''{"bytes": 1000}'') ''alice'' ''RSE1'')
     = Inr (Response (Text ''Created'') 201)
   \<and> returned (LocalAccountLimit_delete (\<lambda>c. Returns)
       (example_request ''{"bytes": 1000}'') ''alice'' ''RSE1'')
     = Inr (Response (Text '''') 200)
   \<and> returned (GlobalAccountLimit_post example_decoder (\<lambda>c. Returns)
       (example_request ''{"bytes": 1000}'') ''alice'' ''RSE1|RSE2'')
     = Inr (Response (Text ''Created'') 201)
   \<and> returned (GlobalAccountLimit_delete (\<lambda>c. Returns)
       (example_request ''{"bytes": 1000}'') ''alice'' ''RSE1|RSE2'')
     = Inr (Response (Text '''') 200)
   \<and> returned (AddFiles_post example_decoder (\<lambda>c. Returns)
       (example_request ''{"lfns": []}''))
     = Inr (Response (Text ''Created'') 201)\<close>
  using success_responses [where loads = example_decoder and parse_response = example_decoder
      and api = "\<lambda>c. Returns"
      and req = \<open>example_request ''{"bytes": 1000}''\<close>
      and req' = \<open>example_request ''{"lfns": []}''\<close>
      and parameter = "JObject [(''bytes'', JInt 1000)]" and bytes = "JInt 1000"
      and parameters = "JObject [(''lfns'', JArray [])]" and lfns = "JArray []"
      and ignore_availability = "JBool False"
      and account = "''alice''" and rse = "''RSE1''" and rse_expression = "''RSE1|RSE2''"]
  by (simp add: example_decoder_bytes example_decoder_lfns)

text \<open>
  Claim C10. \<^verbatim>\<open>LocalAccountLimit.post\<close> and \<^verbatim>\<open>GlobalAccountLimit.post\<close> end the same
  way (the same response, or the same exception) for every body, whenever
  \<^verbatim>\<open>set_local_account_limit\<close> and \<^verbatim>\<open>set_global_account_limit\<close> yield the same outcome
  on the value read from the body. Either both make no downstream call, or each makes
  exactly one: \<^verbatim>\<open>set_local_account_limit\<close> with the account, the RSE, the \<^verbatim>\<open>bytes\<close> of the
  body and the issuer and vo of the request, and \<^verbatim>\<open>set_global_account_limit\<close> with the
  same account, \<^verbatim>\<open>bytes\<close>, issuer and vo and the RSE expression. The calls differ only in
  the operation and the path parameter.
\<close>

theorem limit_post_equivalent:
  assumes "\<And>parameter bytes.
      loads (request_data req) = Inr parameter \<Longrightarrow> getitem parameter ''bytes'' = Inr bytes
        \<Longrightarrow> api_local (Set_local_account_limit account rse bytes
                        (map_of (environ req) ''issuer'') (map_of (environ req) ''vo''))
            = api_global (Set_global_account_limit account rse_expression bytes
                        (map_of (environ req) ''issuer'') (map_of (environ req) ''vo''))"
  shows "returned (LocalAccountLimit_post loads api_local req account rse)
           = returned (GlobalAccountLimit_post loads api_global req account rse_expression)
       \<and> (calls (LocalAccountLimit_post loads api_local req account rse) = []
            \<and> calls (GlobalAccountLimit_post loads api_global req account rse_expression) = []
          \<or> (\<exists>parameter bytes.
               loads (request_data req) = Inr parameter
             \<and> getitem parameter ''bytes'' = Inr bytes
             \<and> calls (LocalAccountLimit_post loads api_local req account rse)
                 = [Set_local_account_limit account rse bytes
                      (map_of (environ req) ''issuer'') (map_of (environ req) ''vo'')]
             \<and> calls (GlobalAccountLimit_post loads api_global req account rse_expression)
                 = [Set_global_account_limit account rse_expression bytes
                      (map_of (environ req) ''issuer'') (map_of (environ req) ''vo'')]))"
proof (cases "loads (request_data req)")
  case (Inl error)
  then show ?thesis
    by (simp add: LocalAccountLimit_post_def GlobalAccountLimit_post_def returned_def calls_def)
next
  case (Inr parameter)
  show ?thesis
  proof (cases "getitem parameter ''bytes''")
    case (Inl error)
    with Inr show ?thesis
      by (simp add: LocalAccountLimit_post_def GlobalAccountLimit_post_def returned_def
          calls_def)
  next
    case inner: (Inr bytes)
    have same: "api_local (Set_local_account_limit account rse bytes
                    (map_of (environ req) ''issuer'') (map_of (environ req) ''vo''))
            = api_global (Set_global_account_limit account rse_expression bytes
                    (map_of (environ req) ''issuer'') (map_of (environ req) ''vo''))"
      using assms [OF Inr inner] .
    show ?thesis
    proof (cases "api_global (Set_global_account_limit account rse_expression bytes
                    (map_of (environ req) ''issuer'') (map_of (environ req) ''vo''))")
      case Returns
      with Inr inner same show ?thesis
        by (simp add: LocalAccountLimit_post_def GlobalAccountLimit_post_def returned_def
            calls_def set_local_call_def set_global_call_def environ_get_def)
    next
      case (Raises error)
      with Inr inner same show ?thesis
        by (simp add: LocalAccountLimit_post_def GlobalAccountLimit_post_def returned_def
            calls_def set_local_call_def set_global_call_def environ_get_def)
    qed
  qed
qed

text \<open>
  Both handlers with a downstream that knows no such RSE: the same response, and one
  call each that differs only in the operation and the path parameter.
\<close>

theorem limit_post_equivalent_witness:
  \<open>returned (LocalAccountLimit_post example_decoder (\<lambda>c. Raises (example_error RSENotFound))
       (example_request ''{"bytes": 1000}'') ''alice'' ''RSE1'')
     = returned (GlobalAccountLimit_post example_decoder
         (\<lambda>c. Raises (example_error RSENotFound))
         (example_request ''{"bytes": 1000}'') ''alice'' ''RSE1|RSE2'')
   \<and> returned (GlobalAccountLimit_post example_decoder
         (\<lambda>c. Raises (example_error RSENotFound))
         (example_request ''{"bytes": 1000}'') ''alice'' ''RSE1|RSE2'')
     = Inr (Response (ErrorObject ''RSENotFound'' ''refused'') 404)
   \<and> calls (LocalAccountLimit_post example_decoder (\<lambda>c. Raises (example_error RSENotFound))
       (example_request ''{"bytes": 1000}'') ''alice'' ''RSE1'')
     = [Set_local_account_limit ''alice'' ''RSE1'' (JInt 1000) (Some ''root'') (Some ''def'')]
   \<and> calls (GlobalAccountLimit_post example_decoder
         (\<lambda>c. Raises (example_error RSENotFound))
         (example_request ''{"bytes": 1000}'') ''alice'' ''RSE1|RSE2'')
     = [Set_global_account_limit ''alice'' ''RSE1|RSE2'' (JInt 1000) (Some ''root'')
          (Some ''def'')]\<close>
proof -
  let ?req = \<open>example_request ''{"bytes": 1000}''\<close>
  let ?api = "\<lambda>c::api_call. Raises (example_error RSENotFound)"
  have env: "map_of (environ ?req) ''issuer'' = Some ''root''"
    "map_of (environ ?req) ''vo'' = Some ''def''"
    by (simp_all add: example_request_def)
  have g: "returned (GlobalAccountLimit_post example_decoder ?api ?req ''alice'' ''RSE1|RSE2'')
     = Inr (Response (ErrorObject ''RSENotFound'' ''refused'') 404)"
    by (simp add: GlobalAccountLimit_post_def example_decoder_bytes returned_def
        set_limit_except_def example_error_def generate_http_error_flask_def)
  have l: "calls (LocalAccountLimit_post example_decoder ?api ?req ''alice'' ''RSE1'')
     = [Set_local_account_limit ''alice'' ''RSE1'' (JInt 1000) (Some ''root'') (Some ''def'')]"
    by (simp add: LocalAccountLimit_post_def example_decoder_bytes calls_def
        set_local_call_def environ_get_def env)
  have c: "calls (GlobalAccountLimit_post example_decoder ?api ?req ''alice'' ''RSE1|RSE2'')
     = [Set_global_account_limit ''alice'' ''RSE1|RSE2'' (JInt 1000) (Some ''root'')
          (Some ''def'')]"
    by (simp add: GlobalAccountLimit_post_def example_decoder_bytes calls_def
        set_global_call_def environ_get_def env)
  have "returned (LocalAccountLimit_post example_decoder ?api ?req ''alice'' ''RSE1'')
     = returned (GlobalAccountLimit_post example_decoder ?api ?req ''alice'' ''RSE1|RSE2'')"
    using limit_post_equivalent [where loads = example_decoder and api_local = ?api
        and api_global = ?api and req = ?req and account = "''alice''" and rse = "''RSE1''"
        and rse_expression = "''RSE1|RSE2''"]
    by simp
  then show ?thesis
    using g l c by simp
qed

end
